theory Spec2Isabelle
  imports Main "HOL-Library.AList"
begin

section \<open>Go values the package works with\<close>

subsection \<open>Errors\<close>

text \<open>
  The package builds every error with \<^verbatim>\<open>fmt.Errorf\<close>. Without a \<^verbatim>\<open>%w\<close> verb the
  result is an \<^verbatim>\<open>*errors.errorString\<close> (a message only); with one \<^verbatim>\<open>%w\<close> it is a
  \<^verbatim>\<open>*fmt.wrapError\<close>: the formatted message and the operand of \<^verbatim>\<open>%w\<close>, which
  \<^verbatim>\<open>Unwrap\<close> returns. Errors coming from the store or from the unit of work are
  values of the same type.
\<close>

datatype goerror = errorString string | wrapError string goerror

text \<open>The \<^verbatim>\<open>Error()\<close> method: the message.\<close>

fun ErrorMsg :: "goerror \<Rightarrow> string" where
  "ErrorMsg (errorString s) = s"
| "ErrorMsg (wrapError s e) = s"

fun Unwrap :: "goerror \<Rightarrow> goerror option" where
  "Unwrap (errorString s) = None"
| "Unwrap (wrapError s e) = Some e"

text \<open>
  \<^verbatim>\<open>fmt.Errorf\<close> on error operands, for the verbs the package uses: \<^verbatim>\<open>%w\<close> and
  \<^verbatim>\<open>%v\<close> both print the operand's message; a verb with no operand left prints
  \<^verbatim>\<open>%!v(MISSING)\<close>. The error wrapped is the operand of the first \<^verbatim>\<open>%w\<close>.
\<close>

fun Errorf_msg :: "string \<Rightarrow> goerror list \<Rightarrow> string" where
  "Errorf_msg [] args = []"
| "Errorf_msg [c] args = [c]"
| "Errorf_msg (c # v # fmt) args =
     (if c = CHR ''%'' \<and> (v = CHR ''w'' \<or> v = CHR ''v'') then
        (case args of
           [] \<Rightarrow> ''%!'' @ [v] @ ''(MISSING)'' @ Errorf_msg fmt []
         | e # es \<Rightarrow> ErrorMsg e @ Errorf_msg fmt es)
      else c # Errorf_msg (v # fmt) args)"

fun Errorf_wrapped :: "string \<Rightarrow> goerror list \<Rightarrow> goerror option" where
  "Errorf_wrapped [] args = None"
| "Errorf_wrapped [c] args = None"
| "Errorf_wrapped (c # v # fmt) args =
     (if c = CHR ''%'' \<and> (v = CHR ''w'' \<or> v = CHR ''v'') then
        (case args of
           [] \<Rightarrow> None
         | e # es \<Rightarrow> if v = CHR ''w'' then Some e else Errorf_wrapped fmt es)
      else Errorf_wrapped (v # fmt) args)"

definition Errorf :: "string \<Rightarrow> goerror list \<Rightarrow> goerror" where
  "Errorf fmt args =
     (case Errorf_wrapped fmt args of
        None \<Rightarrow> errorString (Errorf_msg fmt args)
      | Some e \<Rightarrow> wrapError (Errorf_msg fmt args) e)"

subsection \<open>Dynamic values and contexts\<close>

text \<open>
  A \<^verbatim>\<open>context.Context\<close> is modelled by the values it carries: a list of
  key/value pairs, the innermost \<^verbatim>\<open>WithValue\<close> first. The package looks up the
  string key \<^verbatim>\<open>"savepoint_id"\<close> only. The values are Go's \<^verbatim>\<open>any\<close>, restricted
  here to nil, integers, strings and booleans.
\<close>

datatype any = AnyNil | AnyInt int | AnyString string | AnyBool bool

type_synonym Context = "(string \<times> any) list"

definition Background :: Context where
  "Background = []"

definition WithValue :: "Context \<Rightarrow> string \<Rightarrow> any \<Rightarrow> Context" where
  "WithValue ctx key val = (key, val) # ctx"

definition Value :: "Context \<Rightarrow> string \<Rightarrow> any" where
  "Value ctx key = (case map_of ctx key of None \<Rightarrow> AnyNil | Some v \<Rightarrow> v)"

text \<open>Decimal digits of a natural number, and \<^verbatim>\<open>%d\<close> of an integer.\<close>

fun digits :: "nat \<Rightarrow> string" where
  "digits n =
     (if n < 10 then [''0123456789'' ! n]
      else digits (n div 10) @ [''0123456789'' ! (n mod 10)])"

declare digits.simps [simp del]

definition itoa :: "int \<Rightarrow> string" where
  "itoa i = (if i < 0 then CHR ''-'' # digits (nat (- i)) else digits (nat i))"

text \<open>
  \<^verbatim>\<open>fmt.Sprintf\<close> for the verb \<^verbatim>\<open>%d\<close>. An operand that is not an integer is
  printed by \<^verbatim>\<open>fmt\<close> as \<^verbatim>\<open>%!d(type=value)\<close>, and nil as \<^verbatim>\<open>%!d(<nil>)\<close>.
\<close>

fun format_d :: "any \<Rightarrow> string" where
  "format_d AnyNil = ''%!d(<nil>)''"
| "format_d (AnyInt i) = itoa i"
| "format_d (AnyString s) = ''%!d(string='' @ s @ '')''"
| "format_d (AnyBool b) = ''%!d(bool='' @ (if b then ''true'' else ''false'') @ '')''"

fun Sprintf :: "string \<Rightarrow> any list \<Rightarrow> string" where
  "Sprintf [] args = []"
| "Sprintf [c] args = [c]"
| "Sprintf (c # v # fmt) args =
     (if c = CHR ''%'' \<and> v = CHR ''d'' then
        (case args of
           [] \<Rightarrow> ''%!d(MISSING)'' @ Sprintf fmt []
         | a # as \<Rightarrow> format_d a @ Sprintf fmt as)
      else c # Sprintf (v # fmt) args)"

section \<open>The transaction helpers (sql/transaction.go)\<close>

subsection \<open>The connection handle and the store\<close>

text \<open>
  \<^verbatim>\<open>*gorm.DB\<close> belongs to the ORM. The helpers read three things of it: whether
  the pointer is nil, the field \<^verbatim>\<open>Error\<close>, and the fields \<^verbatim>\<open>Statement\<close> and
  \<^verbatim>\<open>Statement.DB\<close> (both pointers). A handle is a record of these, with an
  identity; a nil pointer is \<open>None\<close>.
\<close>

record Statement =
  DB :: "nat option"

record gormDB =
  ident :: nat
  Error :: "goerror option"
  Statement :: "Statement option"

text \<open>
  The store calls a handle offers. Every call the program issues is appended to
  the world, the list of calls so far, oldest first. \<open>Exec\<close> stands for any
  statement a unit of work runs on its handle.
\<close>

datatype call =
    Begin Context gormDB
  | Commit gormDB
  | Rollback gormDB
  | SavePoint gormDB string
  | RollbackTo gormDB string
  | Exec gormDB string

type_synonym world = "call list"

text \<open>
  The ORM and the store behind it are a parameter: given the calls made so far
  and the call being made, the handle the call returns (for \<open>Begin\<close> the
  transaction handle; for the others only its \<open>Error\<close> is read).
\<close>

type_synonym orm = "world \<Rightarrow> call \<Rightarrow> gormDB"

text \<open>
  A Go function either returns or panics. The value \<^verbatim>\<open>recover()\<close> yields for a
  panic in flight is never nil (Go 1.21 and later, which the package requires,
  turn \<^verbatim>\<open>panic(nil)\<close> into a \<^verbatim>\<open>*runtime.PanicNilError\<close>), so the test
  \<^verbatim>\<open>r != nil\<close> of the deferred functions is the test "the unit of work
  panicked". The panic value is of an arbitrary type \<open>'p\<close>.
\<close>

datatype ('a, 'p) outcome = Returned 'a | Panicked 'p

text \<open>
  \<^verbatim>\<open>type TransactionFunc func(*gorm.DB) error\<close>: a unit of work receives a
  handle, may issue calls of its own (it maps the world before to the world
  after) and returns nil, returns an error, or panics.
\<close>

type_synonym 'p TransactionFunc =
  "gormDB \<Rightarrow> world \<Rightarrow> (goerror option, 'p) outcome \<times> world"

subsection \<open>WithTransaction, WithTransactionContext\<close>

definition WithTransactionContext ::
  "orm \<Rightarrow> Context \<Rightarrow> gormDB option \<Rightarrow> 'p TransactionFunc \<Rightarrow> world
    \<Rightarrow> (goerror option, 'p) outcome \<times> world" where
  "WithTransactionContext gorm ctx db fn w =
     (case db of
        None \<Rightarrow> (Returned (Some (Errorf ''database connection is nil'' [])), w)
      | Some d \<Rightarrow>
          let tx = gorm w (Begin ctx d); w1 = w @ [Begin ctx d] in
          (case Error tx of
             Some e \<Rightarrow> (Returned (Some (Errorf ''failed to begin transaction: %w'' [e])), w1)
           | None \<Rightarrow>
               (case fn tx w1 of
                  (Panicked r, w2) \<Rightarrow> (Panicked r, w2 @ [Rollback tx])
                | (Returned (Some err), w2) \<Rightarrow>
                    (case Error (gorm w2 (Rollback tx)) of
                       Some rollbackErr \<Rightarrow>
                         (Returned (Some (Errorf ''transaction failed: %w, rollback failed: %v''
                                            [err, rollbackErr])),
                          w2 @ [Rollback tx])
                     | None \<Rightarrow>
                         (Returned (Some (Errorf ''transaction failed: %w'' [err])),
                          w2 @ [Rollback tx]))
                | (Returned None, w2) \<Rightarrow>
                    (case Error (gorm w2 (Commit tx)) of
                       Some err \<Rightarrow>
                         (Returned (Some (Errorf ''failed to commit transaction: %w'' [err])),
                          w2 @ [Commit tx])
                     | None \<Rightarrow> (Returned None, w2 @ [Commit tx])))))"

definition WithTransaction ::
  "orm \<Rightarrow> gormDB option \<Rightarrow> 'p TransactionFunc \<Rightarrow> world
    \<Rightarrow> (goerror option, 'p) outcome \<times> world" where
  "WithTransaction gorm db fn w = WithTransactionContext gorm Background db fn w"

subsection \<open>WithNestedTransaction, WithNestedTransactionContext\<close>

text \<open>The test \<^verbatim>\<open>db.Statement != nil && db.Statement.DB != nil\<close>.\<close>

definition inTransaction :: "gormDB \<Rightarrow> bool" where
  "inTransaction d =
     (case Statement d of None \<Rightarrow> False | Some st \<Rightarrow> DB st \<noteq> None)"

definition savepoint_name :: "Context \<Rightarrow> string" where
  "savepoint_name ctx = Sprintf ''sp_%d'' [Value ctx ''savepoint_id'']"

definition WithNestedTransactionContext ::
  "orm \<Rightarrow> Context \<Rightarrow> gormDB option \<Rightarrow> 'p TransactionFunc \<Rightarrow> world
    \<Rightarrow> (goerror option, 'p) outcome \<times> world" where
  "WithNestedTransactionContext gorm ctx db fn w =
     (case db of
        None \<Rightarrow> (Returned (Some (Errorf ''database connection is nil'' [])), w)
      | Some d \<Rightarrow>
          if inTransaction d then
            let savepoint = savepoint_name ctx; w1 = w @ [SavePoint d savepoint] in
            (case Error (gorm w (SavePoint d savepoint)) of
               Some err \<Rightarrow> (Returned (Some (Errorf ''failed to create savepoint: %w'' [err])), w1)
             | None \<Rightarrow>
                 (case fn d w1 of
                    (Panicked r, w2) \<Rightarrow> (Panicked r, w2 @ [RollbackTo d savepoint])
                  | (Returned (Some err), w2) \<Rightarrow>
                      (case Error (gorm w2 (RollbackTo d savepoint)) of
                         Some rollbackErr \<Rightarrow>
                           (Returned (Some (Errorf
                              ''nested transaction failed: %w, savepoint rollback failed: %v''
                              [err, rollbackErr])),
                            w2 @ [RollbackTo d savepoint])
                       | None \<Rightarrow>
                           (Returned (Some (Errorf ''nested transaction failed: %w'' [err])),
                            w2 @ [RollbackTo d savepoint]))
                  | (Returned None, w2) \<Rightarrow> (Returned None, w2)))
          else WithTransactionContext gorm ctx (Some d) fn w)"

definition WithNestedTransaction ::
  "orm \<Rightarrow> gormDB option \<Rightarrow> 'p TransactionFunc \<Rightarrow> world
    \<Rightarrow> (goerror option, 'p) outcome \<times> world" where
  "WithNestedTransaction gorm db fn w = WithNestedTransactionContext gorm Background db fn w"

section \<open>The JSONB column type (sql/jsonb.go)\<close>

text \<open>
  \<^verbatim>\<open>type JSONB map[string]any\<close>. A Go map is nil or a table of entries; the
  table is an association list with distinct keys, whose order stands for the
  order in which \<^verbatim>\<open>range\<close> happens to visit the entries. The values are Go's
  \<^verbatim>\<open>any\<close>, by the dynamic types the accessors tell apart; \<open>'f\<close> is
  \<^verbatim>\<open>float64\<close>.
\<close>

datatype 'f jvalue =
    JNil
  | JString string
  | JBool bool
  | JInt int
  | JFloat64 'f
  | JNumber string
  | JObject "(string \<times> 'f jvalue) list"
  | JArray "'f jvalue list"

type_synonym 'f JSONB = "(string \<times> 'f jvalue) list option"

text \<open>
  The map operations of the language. Reading, deleting, \<^verbatim>\<open>len\<close> and
  \<^verbatim>\<open>range\<close> accept a nil map; assigning to an entry of a nil map panics.
\<close>

definition map_index :: "'f JSONB \<Rightarrow> string \<Rightarrow> 'f jvalue \<times> bool" where
  "map_index j key =
     (case j of
        None \<Rightarrow> (JNil, False)
      | Some m \<Rightarrow> (case map_of m key of None \<Rightarrow> (JNil, False) | Some v \<Rightarrow> (v, True)))"

definition map_assign :: "'f JSONB \<Rightarrow> string \<Rightarrow> 'f jvalue \<Rightarrow> ('f JSONB, string) outcome" where
  "map_assign j key val =
     (case j of
        None \<Rightarrow> Panicked ''assignment to entry in nil map''
      | Some m \<Rightarrow> Returned (Some (AList.update key val m)))"

definition map_delete :: "'f JSONB \<Rightarrow> string \<Rightarrow> 'f JSONB" where
  "map_delete j key = (case j of None \<Rightarrow> None | Some m \<Rightarrow> Some (AList.delete key m))"

definition map_len :: "'f JSONB \<Rightarrow> nat" where
  "map_len j = (case j of None \<Rightarrow> 0 | Some m \<Rightarrow> length m)"

definition map_range :: "'f JSONB \<Rightarrow> (string \<times> 'f jvalue) list" where
  "map_range j = (case j of None \<Rightarrow> [] | Some m \<Rightarrow> m)"

text \<open>
  \<open>String\<close> calls \<^verbatim>\<open>json.Marshal\<close>, a parameter here: the encoding of a
  non-nil map, or an error.
\<close>

definition String ::
  "((string \<times> 'f jvalue) list \<Rightarrow> goerror + string) \<Rightarrow> 'f JSONB \<Rightarrow> string" where
  "String Marshal j =
     (case j of
        None \<Rightarrow> ''null''
      | Some m \<Rightarrow> (case Marshal m of Inl err \<Rightarrow> ''{}'' | Inr data \<Rightarrow> data))"

text \<open>
  The methods have value receivers, and a map value shares its table: \<open>Set\<close>
  and \<open>Delete\<close> return the receiver as the caller sees it afterwards.
\<close>

definition Set :: "'f JSONB \<Rightarrow> string \<Rightarrow> 'f jvalue \<Rightarrow> ('f JSONB, string) outcome" where
  "Set j key val = (if j = None then Returned j else map_assign j key val)"

definition Get :: "'f JSONB \<Rightarrow> string \<Rightarrow> 'f jvalue \<times> bool" where
  "Get j key = (if j = None then (JNil, False) else map_index j key)"

definition GetString :: "'f JSONB \<Rightarrow> string \<Rightarrow> string \<times> bool" where
  "GetString j key =
     (case Get j key of
        (val, exists) \<Rightarrow>
          if \<not> exists then ([], False)
          else (case val of JString str \<Rightarrow> (str, True) | _ \<Rightarrow> ([], False)))"

text \<open>
  \<open>GetInt\<close> converts a \<^verbatim>\<open>float64\<close> with \<^verbatim>\<open>int(v)\<close> and a
  \<^verbatim>\<open>json.Number\<close> with its method \<^verbatim>\<open>Int64\<close>; both are parameters.
\<close>

definition GetInt ::
  "('f \<Rightarrow> int) \<Rightarrow> (string \<Rightarrow> goerror + int) \<Rightarrow> 'f JSONB \<Rightarrow> string \<Rightarrow> int \<times> bool" where
  "GetInt float_to_int Int64 j key =
     (case Get j key of
        (val, exists) \<Rightarrow>
          if \<not> exists then (0, False)
          else (case val of
                  JInt v \<Rightarrow> (v, True)
                | JFloat64 v \<Rightarrow> (float_to_int v, True)
                | JNumber v \<Rightarrow> (case Int64 v of Inr i \<Rightarrow> (i, True) | Inl err \<Rightarrow> (0, False))
                | _ \<Rightarrow> (0, False)))"

definition GetBool :: "'f JSONB \<Rightarrow> string \<Rightarrow> bool \<times> bool" where
  "GetBool j key =
     (case Get j key of
        (val, exists) \<Rightarrow>
          if \<not> exists then (False, False)
          else (case val of JBool boolean \<Rightarrow> (boolean, True) | _ \<Rightarrow> (False, False)))"

definition Delete :: "'f JSONB \<Rightarrow> string \<Rightarrow> 'f JSONB" where
  "Delete j key = (if j = None then j else map_delete j key)"

definition Has :: "'f JSONB \<Rightarrow> string \<Rightarrow> bool" where
  "Has j key = (if j = None then False else snd (map_index j key))"

text \<open>A slice is nil (\<open>None\<close>) or a list.\<close>

definition Keys :: "'f JSONB \<Rightarrow> string list option" where
  "Keys j = (if j = None then None else Some (foldl (\<lambda>keys (k, v). keys @ [k]) [] (map_range j)))"

definition IsEmpty :: "'f JSONB \<Rightarrow> bool" where
  "IsEmpty j = (map_len j = 0)"

fun Clone_loop ::
  "(string \<times> 'f jvalue) list \<Rightarrow> 'f JSONB \<Rightarrow> ('f JSONB, string) outcome" where
  "Clone_loop [] clone = Returned clone"
| "Clone_loop ((k, v) # kvs) clone =
     (case map_assign clone k v of
        Panicked p \<Rightarrow> Panicked p
      | Returned clone' \<Rightarrow> Clone_loop kvs clone')"

definition Clone :: "'f JSONB \<Rightarrow> ('f JSONB, string) outcome" where
  "Clone j = (if j = None then Returned None else Clone_loop (map_range j) (Some []))"

section \<open>Connection configuration (sql/gorm.go)\<close>

text \<open>
  \<^verbatim>\<open>time.Duration\<close> counts nanoseconds; \<^verbatim>\<open>logger.LogLevel\<close> is an integer
  type of the ORM, whose constant \<^verbatim>\<open>Info\<close> is 4.
\<close>

definition Millisecond :: int where "Millisecond = 1000000"
definition Minute :: int where "Minute = 60000000000"
definition logger_Info :: int where "logger_Info = 4"

record GormConfig =
  Host :: string
  User :: string
  Password :: string
  Name :: string
  Port :: string
  SSLMode :: string
  Timezone :: string
  MaxIdleConns :: int
  MaxOpenConns :: int
  ConnMaxLifetime :: int
  ConnMaxIdleTime :: int
  TranslateErrors :: bool
  LogLevel :: int
  SlowThreshold :: int
  IgnoreRecordNotFoundError :: bool

definition setDefaults :: "GormConfig \<Rightarrow> GormConfig" where
  "setDefaults c0 =
     (let c1 = (if SSLMode c0 = [] then c0\<lparr>SSLMode := ''disable''\<rparr> else c0);
          c2 = (if Timezone c1 = [] then c1\<lparr>Timezone := ''UTC''\<rparr> else c1);
          c3 = (if MaxIdleConns c2 \<le> 0 then c2\<lparr>MaxIdleConns := 10\<rparr> else c2);
          c4 = (if MaxOpenConns c3 \<le> 0 then c3\<lparr>MaxOpenConns := 100\<rparr> else c3);
          c5 = (if ConnMaxLifetime c4 \<le> 0 then c4\<lparr>ConnMaxLifetime := 30 * Minute\<rparr> else c4);
          c6 = (if ConnMaxIdleTime c5 \<le> 0 then c5\<lparr>ConnMaxIdleTime := 10 * Minute\<rparr> else c5);
          c7 = (if LogLevel c6 = 0 then c6\<lparr>LogLevel := logger_Info\<rparr> else c6);
          c8 = (if SlowThreshold c7 \<le> 0 then c7\<lparr>SlowThreshold := 200 * Millisecond\<rparr> else c7)
      in c8)"

section \<open>Example stores and units of work\<close>

text \<open>
  Concrete inputs on which the theorems below are instantiated: a handle with no
  statement, the handle of an open transaction, a store on which every call
  succeeds, a store whose commit, rollback and rollback-to-savepoint fail, and
  three units of work (one succeeds, one returns an error, one panics).
\<close>

definition db_plain :: gormDB where
  "db_plain = \<lparr>ident = 0, Error = None, Statement = None\<rparr>"

definition tx_open :: gormDB where
  "tx_open = \<lparr>ident = 1, Error = None, Statement = Some \<lparr>DB = Some 1\<rparr>\<rparr>"

definition store_ok :: orm where
  "store_ok w c = tx_open"

definition store_failing :: orm where
  "store_failing w c =
     (case c of
        Begin ctx d \<Rightarrow> tx_open
      | Commit d \<Rightarrow> d\<lparr>Error := Some (errorString ''commit refused'')\<rparr>
      | Rollback d \<Rightarrow> d\<lparr>Error := Some (errorString ''connection lost'')\<rparr>
      | SavePoint d name \<Rightarrow> d
      | RollbackTo d name \<Rightarrow> d\<lparr>Error := Some (errorString ''no such savepoint'')\<rparr>
      | Exec d q \<Rightarrow> d)"

definition insert_two :: "string TransactionFunc" where
  "insert_two tx w = (Returned None, w @ [Exec tx ''INSERT a'', Exec tx ''INSERT b''])"

definition insert_fails :: "string TransactionFunc" where
  "insert_fails tx w =
     (Returned (Some (errorString ''second insert failed'')),
      w @ [Exec tx ''INSERT a'', Exec tx ''INSERT b''])"

definition insert_panics :: "string TransactionFunc" where
  "insert_panics tx w = (Panicked ''boom'', w @ [Exec tx ''INSERT a''])"

text \<open>
  A handle as the ORM builds it: \<^verbatim>\<open>Statement\<close> and \<^verbatim>\<open>Statement.DB\<close> are set
  on every handle, also when no transaction has been begun on it.
\<close>

definition db_gorm :: gormDB where
  "db_gorm = \<lparr>ident = 0, Error = None, Statement = Some \<lparr>DB = Some 0\<rparr>\<rparr>"

text \<open>A store that refuses savepoints.\<close>

definition store_refusing :: orm where
  "store_refusing w c =
     (case c of
        Begin ctx d \<Rightarrow> tx_open
      | Commit d \<Rightarrow> d
      | Rollback d \<Rightarrow> d
      | SavePoint d name \<Rightarrow> d\<lparr>Error := Some (errorString ''savepoints not supported'')\<rparr>
      | RollbackTo d name \<Rightarrow> d
      | Exec d q \<Rightarrow> d)"

text \<open>A unit of work that calls the nested entry point on the handle it is given.\<close>

definition nested_insert :: "orm \<Rightarrow> string TransactionFunc" where
  "nested_insert gorm tx w = WithNestedTransaction gorm (Some tx) insert_two w"

text \<open>A configuration in which every field the defaults concern is already set.\<close>

definition cfg_example :: GormConfig where
  "cfg_example =
     \<lparr>Host = ''localhost'', User = ''app'', Password = ''secret'', Name = ''appdb'',
      Port = ''5432'', SSLMode = ''require'', Timezone = ''Europe/Berlin'',
      MaxIdleConns = 5, MaxOpenConns = 20, ConnMaxLifetime = 5 * Minute,
      ConnMaxIdleTime = 2 * Minute, TranslateErrors = True, LogLevel = 2,
      SlowThreshold = 500 * Millisecond, IgnoreRecordNotFoundError = False\<rparr>"

section \<open>Properties of the transaction helpers\<close>

subsection \<open>The errors built by the helpers\<close>

lemma Errorf_nil_handle:
  "Errorf ''database connection is nil'' [] = errorString ''database connection is nil''"
  by (simp add: Errorf_def)

lemma Errorf_begin:
  "Errorf ''failed to begin transaction: %w'' [e] =
     wrapError (''failed to begin transaction: '' @ ErrorMsg e) e"
  by (simp add: Errorf_def)

lemma Errorf_commit:
  "Errorf ''failed to commit transaction: %w'' [e] =
     wrapError (''failed to commit transaction: '' @ ErrorMsg e) e"
  by (simp add: Errorf_def)

lemma Errorf_failed:
  "Errorf ''transaction failed: %w'' [e] = wrapError (''transaction failed: '' @ ErrorMsg e) e"
  by (simp add: Errorf_def)

lemma Errorf_failed_rollback:
  "Errorf ''transaction failed: %w, rollback failed: %v'' [e, r] =
     wrapError (''transaction failed: '' @ ErrorMsg e @ '', rollback failed: '' @ ErrorMsg r) e"
  by (simp add: Errorf_def)

lemma Errorf_savepoint:
  "Errorf ''failed to create savepoint: %w'' [e] =
     wrapError (''failed to create savepoint: '' @ ErrorMsg e) e"
  by (simp add: Errorf_def)

lemma Errorf_nested:
  "Errorf ''nested transaction failed: %w'' [e] =
     wrapError (''nested transaction failed: '' @ ErrorMsg e) e"
  by (simp add: Errorf_def)

lemma Errorf_nested_rollback:
  "Errorf ''nested transaction failed: %w, savepoint rollback failed: %v'' [e, r] =
     wrapError (''nested transaction failed: '' @ ErrorMsg e @
                '', savepoint rollback failed: '' @ ErrorMsg r) e"
  by (simp add: Errorf_def)

lemma savepoint_name_Background: "savepoint_name Background = ''sp_%!d(<nil>)''"
  by (simp add: savepoint_name_def Background_def Value_def)


lemma wrapError_eqI: "ErrorMsg e = m \<Longrightarrow> Unwrap e = Some x \<Longrightarrow> e = wrapError m x"
  by (cases e) auto

lemma count_list_snoc: "count_list (xs @ [x]) y = count_list xs y + (if x = y then 1 else 0)"
  by (induction xs) auto

text \<open>
  C1. When the handle is not nil, begin succeeds and the unit of work returns
  nil, the helper issues exactly one call after the unit of work, a commit on
  the transaction handle, and no rollback: the calls are those the unit of work
  left, followed by the commit. If the commit fails the result is the error
  "failed to commit transaction: ..." wrapping the commit failure, and still no
  rollback is issued; otherwise the result is nil. \<open>WithTransaction\<close> is the same
  function on the background context.
\<close>

theorem commit_on_success:
  assumes "tx = gorm w (Begin ctx d)"
      and "Error tx = None"
      and "fn tx (w @ [Begin ctx d]) = (Returned None, w2)"
  shows "WithTransactionContext gorm ctx (Some d) fn w =
           (Returned (case Error (gorm w2 (Commit tx)) of
                        None \<Rightarrow> None
                      | Some e \<Rightarrow>
                          Some (wrapError (''failed to commit transaction: '' @ ErrorMsg e) e)),
            w2 @ [Commit tx])
       \<and> count_list (snd (WithTransactionContext gorm ctx (Some d) fn w)) (Commit tx)
           = count_list w2 (Commit tx) + 1
       \<and> count_list (snd (WithTransactionContext gorm ctx (Some d) fn w)) (Rollback tx)
           = count_list w2 (Rollback tx)
       \<and> (ctx = Background \<longrightarrow>
            WithTransaction gorm (Some d) fn w = WithTransactionContext gorm ctx (Some d) fn w)"
proof -
  have run: "WithTransactionContext gorm ctx (Some d) fn w =
           (Returned (case Error (gorm w2 (Commit tx)) of
                        None \<Rightarrow> None
                      | Some e \<Rightarrow>
                          Some (wrapError (''failed to commit transaction: '' @ ErrorMsg e) e)),
            w2 @ [Commit tx])"
    using assms
    by (simp add: WithTransactionContext_def Let_def Errorf_commit split: option.splits)
  show ?thesis
    by (simp add: run count_list_snoc WithTransaction_def)
qed

theorem commit_on_success_witness:
  "tx_open = store_failing [] (Begin Background db_plain)
   \<and> Error tx_open = None
   \<and> insert_two tx_open ([] @ [Begin Background db_plain]) =
       (Returned None,
        [Begin Background db_plain, Exec tx_open ''INSERT a'', Exec tx_open ''INSERT b''])
   \<and> WithTransaction store_failing (Some db_plain) insert_two [] =
       (Returned (Some (wrapError ''failed to commit transaction: commit refused''
                          (errorString ''commit refused''))),
        [Begin Background db_plain, Exec tx_open ''INSERT a'', Exec tx_open ''INSERT b'',
         Commit tx_open])"
proof -
  have h1: "tx_open = store_failing [] (Begin Background db_plain)"
    by (simp add: store_failing_def)
  have h2: "Error tx_open = None"
    by (simp add: tx_open_def)
  have h3: "insert_two tx_open ([] @ [Begin Background db_plain]) =
       (Returned None,
        [Begin Background db_plain, Exec tx_open ''INSERT a'', Exec tx_open ''INSERT b''])"
    by (simp add: insert_two_def)
  have c: "Error (store_failing
              [Begin Background db_plain, Exec tx_open ''INSERT a'', Exec tx_open ''INSERT b'']
              (Commit tx_open)) = Some (errorString ''commit refused'')"
    by (simp add: store_failing_def)
  from commit_on_success [where gorm = store_failing and fn = insert_two, OF h1 h2 h3]
  show ?thesis
    using h1 h2 h3 by (simp add: c)
qed



text \<open>
  C2. When the handle is not nil, begin succeeds and the unit of work returns
  an error, the helper issues exactly one call after the unit of work, a
  rollback on the transaction handle, and no commit; the error returned wraps
  the error of the unit of work (\<open>Unwrap\<close> yields it), whether or not the
  rollback itself fails.
\<close>

theorem rollback_on_failure:
  assumes "tx = gorm w (Begin ctx d)"
      and "Error tx = None"
      and "fn tx (w @ [Begin ctx d]) = (Returned (Some err), w2)"
  shows "WithTransactionContext gorm ctx (Some d) fn w =
           (Returned (Some (wrapError
              (''transaction failed: '' @ ErrorMsg err @
                 (case Error (gorm w2 (Rollback tx)) of
                    None \<Rightarrow> []
                  | Some rollbackErr \<Rightarrow> '', rollback failed: '' @ ErrorMsg rollbackErr))
              err)),
            w2 @ [Rollback tx])
       \<and> count_list (snd (WithTransactionContext gorm ctx (Some d) fn w)) (Rollback tx)
           = count_list w2 (Rollback tx) + 1
       \<and> count_list (snd (WithTransactionContext gorm ctx (Some d) fn w)) (Commit tx)
           = count_list w2 (Commit tx)
       \<and> (\<exists>e. fst (WithTransactionContext gorm ctx (Some d) fn w) = Returned (Some e)
              \<and> Unwrap e = Some err)
       \<and> (ctx = Background \<longrightarrow>
            WithTransaction gorm (Some d) fn w = WithTransactionContext gorm ctx (Some d) fn w)"
proof -
  have run: "WithTransactionContext gorm ctx (Some d) fn w =
           (Returned (Some (wrapError
              (''transaction failed: '' @ ErrorMsg err @
                 (case Error (gorm w2 (Rollback tx)) of
                    None \<Rightarrow> []
                  | Some rollbackErr \<Rightarrow> '', rollback failed: '' @ ErrorMsg rollbackErr))
              err)),
            w2 @ [Rollback tx])"
    using assms
    by (simp add: WithTransactionContext_def Let_def Errorf_failed Errorf_failed_rollback
        split: option.splits)
  show ?thesis
    by (simp add: run count_list_snoc WithTransaction_def)
qed

theorem rollback_on_failure_witness:
  "tx_open = store_ok [] (Begin Background db_plain)
   \<and> Error tx_open = None
   \<and> insert_fails tx_open ([] @ [Begin Background db_plain]) =
       (Returned (Some (errorString ''second insert failed'')),
        [Begin Background db_plain, Exec tx_open ''INSERT a'', Exec tx_open ''INSERT b''])
   \<and> WithTransaction store_ok (Some db_plain) insert_fails [] =
       (Returned (Some (wrapError ''transaction failed: second insert failed''
                          (errorString ''second insert failed''))),
        [Begin Background db_plain, Exec tx_open ''INSERT a'', Exec tx_open ''INSERT b'',
         Rollback tx_open])"
proof -
  have h1: "tx_open = store_ok [] (Begin Background db_plain)"
    by (simp add: store_ok_def)
  have h2: "Error tx_open = None"
    by (simp add: tx_open_def)
  have h3: "insert_fails tx_open ([] @ [Begin Background db_plain]) =
       (Returned (Some (errorString ''second insert failed'')),
        [Begin Background db_plain, Exec tx_open ''INSERT a'', Exec tx_open ''INSERT b''])"
    by (simp add: insert_fails_def)
  have r: "Error (store_ok
              [Begin Background db_plain, Exec tx_open ''INSERT a'', Exec tx_open ''INSERT b'']
              (Rollback tx_open)) = None"
    by (simp add: store_ok_def tx_open_def)
  from rollback_on_failure [where gorm = store_ok and fn = insert_fails, OF h1 h2 h3]
  show ?thesis
    using h1 h2 h3 by (simp add: r)
qed

text \<open>
  C3. When the unit of work panics with the value \<open>r\<close>, the helper issues a
  rollback on the open transaction and then panics with the same value
  \<open>r\<close>; it does not return an error instead.
\<close>

theorem panic_rolls_back_then_propagates:
  assumes "tx = gorm w (Begin ctx d)"
      and "Error tx = None"
      and "fn tx (w @ [Begin ctx d]) = (Panicked r, w2)"
  shows "WithTransactionContext gorm ctx (Some d) fn w = (Panicked r, w2 @ [Rollback tx])
       \<and> (\<forall>e. fst (WithTransactionContext gorm ctx (Some d) fn w) \<noteq> Returned e)"
  using assms by (simp add: WithTransactionContext_def Let_def)

theorem panic_rolls_back_then_propagates_witness:
  "tx_open = store_ok [] (Begin Background db_plain)
   \<and> Error tx_open = None
   \<and> insert_panics tx_open ([] @ [Begin Background db_plain]) =
       (Panicked ''boom'', [Begin Background db_plain, Exec tx_open ''INSERT a''])
   \<and> WithTransactionContext store_ok Background (Some db_plain) insert_panics [] =
       (Panicked ''boom'',
        [Begin Background db_plain, Exec tx_open ''INSERT a'', Rollback tx_open])"
proof -
  have h1: "tx_open = store_ok [] (Begin Background db_plain)"
    by (simp add: store_ok_def)
  have h2: "Error tx_open = None"
    by (simp add: tx_open_def)
  have h3: "insert_panics tx_open ([] @ [Begin Background db_plain]) =
       (Panicked ''boom'', [Begin Background db_plain, Exec tx_open ''INSERT a''])"
    by (simp add: insert_panics_def)
  from panic_rolls_back_then_propagates
         [where gorm = store_ok and fn = insert_panics, OF h1 h2 h3]
  show ?thesis
    using h1 h2 h3 by simp
qed

text \<open>
  C4. When the unit of work fails and the rollback (in
  \<open>WithTransactionContext\<close>) or the rollback to the savepoint (in the savepoint
  branch of \<open>WithNestedTransactionContext\<close>) fails too, the one error returned
  carries both failures: its message contains the message of the original
  failure and the message of the rollback failure, and it wraps the original
  failure.
\<close>

theorem both_failures_reported:
  "(tx = gorm w (Begin ctx d) \<and> Error tx = None
      \<and> fn tx (w @ [Begin ctx d]) = (Returned (Some err), w2)
      \<and> Error (gorm w2 (Rollback tx)) = Some rollbackErr
    \<longrightarrow> (\<exists>e. fst (WithTransactionContext gorm ctx (Some d) fn w) = Returned (Some e)
            \<and> ErrorMsg e = ''transaction failed: '' @ ErrorMsg err @
                             '', rollback failed: '' @ ErrorMsg rollbackErr
            \<and> Unwrap e = Some err))
   \<and> (inTransaction d' \<and> sp = savepoint_name ctx' \<and> Error (gorm w' (SavePoint d' sp)) = None
      \<and> fn' d' (w' @ [SavePoint d' sp]) = (Returned (Some err'), w2')
      \<and> Error (gorm w2' (RollbackTo d' sp)) = Some rollbackErr'
    \<longrightarrow> (\<exists>e. fst (WithNestedTransactionContext gorm ctx' (Some d') fn' w') = Returned (Some e)
            \<and> ErrorMsg e = ''nested transaction failed: '' @ ErrorMsg err' @
                             '', savepoint rollback failed: '' @ ErrorMsg rollbackErr'
            \<and> Unwrap e = Some err'))"
proof (intro conjI impI)
  assume "tx = gorm w (Begin ctx d) \<and> Error tx = None
      \<and> fn tx (w @ [Begin ctx d]) = (Returned (Some err), w2)
      \<and> Error (gorm w2 (Rollback tx)) = Some rollbackErr"
  then have b: "Error (gorm w (Begin ctx d)) = None"
    and f: "fn (gorm w (Begin ctx d)) (w @ [Begin ctx d]) = (Returned (Some err), w2)"
    and r: "Error (gorm w2 (Rollback (gorm w (Begin ctx d)))) = Some rollbackErr"
    by auto
  show "\<exists>e. fst (WithTransactionContext gorm ctx (Some d) fn w) = Returned (Some e)
            \<and> ErrorMsg e = ''transaction failed: '' @ ErrorMsg err @
                             '', rollback failed: '' @ ErrorMsg rollbackErr
            \<and> Unwrap e = Some err"
    by (simp add: WithTransactionContext_def Let_def Errorf_failed_rollback b f r)
next
  assume "inTransaction d' \<and> sp = savepoint_name ctx' \<and> Error (gorm w' (SavePoint d' sp)) = None
      \<and> fn' d' (w' @ [SavePoint d' sp]) = (Returned (Some err'), w2')
      \<and> Error (gorm w2' (RollbackTo d' sp)) = Some rollbackErr'"
  then have i: "inTransaction d'"
    and s: "Error (gorm w' (SavePoint d' (savepoint_name ctx'))) = None"
    and f: "fn' d' (w' @ [SavePoint d' (savepoint_name ctx')]) = (Returned (Some err'), w2')"
    and r: "Error (gorm w2' (RollbackTo d' (savepoint_name ctx'))) = Some rollbackErr'"
    by auto
  show "\<exists>e. fst (WithNestedTransactionContext gorm ctx' (Some d') fn' w') = Returned (Some e)
            \<and> ErrorMsg e = ''nested transaction failed: '' @ ErrorMsg err' @
                             '', savepoint rollback failed: '' @ ErrorMsg rollbackErr'
            \<and> Unwrap e = Some err'"
    by (simp add: WithNestedTransactionContext_def Let_def Errorf_nested_rollback i s f r)
qed

theorem both_failures_reported_witness:
  "(tx_open = store_failing [] (Begin Background db_plain) \<and> Error tx_open = None
     \<and> insert_fails tx_open ([] @ [Begin Background db_plain]) =
         (Returned (Some (errorString ''second insert failed'')),
          [Begin Background db_plain, Exec tx_open ''INSERT a'', Exec tx_open ''INSERT b''])
     \<and> Error (store_failing
           [Begin Background db_plain, Exec tx_open ''INSERT a'', Exec tx_open ''INSERT b'']
           (Rollback tx_open)) = Some (errorString ''connection lost''))
   \<and> (inTransaction tx_open \<and> ''sp_%!d(<nil>)'' = savepoint_name Background
     \<and> Error (store_failing [] (SavePoint tx_open ''sp_%!d(<nil>)'')) = None
     \<and> insert_fails tx_open ([] @ [SavePoint tx_open ''sp_%!d(<nil>)'']) =
         (Returned (Some (errorString ''second insert failed'')),
          [SavePoint tx_open ''sp_%!d(<nil>)'', Exec tx_open ''INSERT a'',
           Exec tx_open ''INSERT b''])
     \<and> Error (store_failing
           [SavePoint tx_open ''sp_%!d(<nil>)'', Exec tx_open ''INSERT a'',
            Exec tx_open ''INSERT b'']
           (RollbackTo tx_open ''sp_%!d(<nil>)'')) = Some (errorString ''no such savepoint''))
   \<and> fst (WithTransactionContext store_failing Background (Some db_plain) insert_fails []) =
       Returned (Some (wrapError
         ''transaction failed: second insert failed, rollback failed: connection lost''
         (errorString ''second insert failed'')))
   \<and> fst (WithNestedTransactionContext store_failing Background (Some tx_open) insert_fails []) =
       Returned (Some (wrapError
         ''nested transaction failed: second insert failed, savepoint rollback failed: no such savepoint''
         (errorString ''second insert failed'')))"
proof -
  have h1: "tx_open = store_failing [] (Begin Background db_plain) \<and> Error tx_open = None
     \<and> insert_fails tx_open ([] @ [Begin Background db_plain]) =
         (Returned (Some (errorString ''second insert failed'')),
          [Begin Background db_plain, Exec tx_open ''INSERT a'', Exec tx_open ''INSERT b''])
     \<and> Error (store_failing
           [Begin Background db_plain, Exec tx_open ''INSERT a'', Exec tx_open ''INSERT b'']
           (Rollback tx_open)) = Some (errorString ''connection lost'')"
    by (simp add: store_failing_def insert_fails_def) (simp add: tx_open_def)
  have h2: "inTransaction tx_open \<and> ''sp_%!d(<nil>)'' = savepoint_name Background
     \<and> Error (store_failing [] (SavePoint tx_open ''sp_%!d(<nil>)'')) = None
     \<and> insert_fails tx_open ([] @ [SavePoint tx_open ''sp_%!d(<nil>)'']) =
         (Returned (Some (errorString ''second insert failed'')),
          [SavePoint tx_open ''sp_%!d(<nil>)'', Exec tx_open ''INSERT a'',
           Exec tx_open ''INSERT b''])
     \<and> Error (store_failing
           [SavePoint tx_open ''sp_%!d(<nil>)'', Exec tx_open ''INSERT a'',
            Exec tx_open ''INSERT b'']
           (RollbackTo tx_open ''sp_%!d(<nil>)'')) = Some (errorString ''no such savepoint'')"
    by (simp add: store_failing_def insert_fails_def savepoint_name_Background)
       (simp add: tx_open_def inTransaction_def)
  note t = both_failures_reported
    [where gorm = store_failing and tx = tx_open and w = "[]" and ctx = Background
       and d = db_plain and fn = insert_fails and err = "errorString ''second insert failed''"
       and ?w2.0 = "[Begin Background db_plain, Exec tx_open ''INSERT a'',
                     Exec tx_open ''INSERT b'']"
       and rollbackErr = "errorString ''connection lost''"
       and d' = tx_open and sp = "''sp_%!d(<nil>)''" and ctx' = Background and w' = "[]"
       and fn' = insert_fails and err' = "errorString ''second insert failed''"
       and w2' = "[SavePoint tx_open ''sp_%!d(<nil>)'', Exec tx_open ''INSERT a'',
                   Exec tx_open ''INSERT b'']"
       and rollbackErr' = "errorString ''no such savepoint''"]
  from t h1 obtain e1 where
    e1: "fst (WithTransactionContext store_failing Background (Some db_plain) insert_fails []) =
           Returned (Some e1)"
        "ErrorMsg e1 = ''transaction failed: '' @ ErrorMsg (errorString ''second insert failed'') @
                       '', rollback failed: '' @ ErrorMsg (errorString ''connection lost'')"
        "Unwrap e1 = Some (errorString ''second insert failed'')"
    by blast
  from t h2 obtain e2 where
    e2: "fst (WithNestedTransactionContext store_failing Background (Some tx_open) insert_fails [])
           = Returned (Some e2)"
        "ErrorMsg e2 = ''nested transaction failed: '' @
                       ErrorMsg (errorString ''second insert failed'') @
                       '', savepoint rollback failed: '' @
                       ErrorMsg (errorString ''no such savepoint'')"
        "Unwrap e2 = Some (errorString ''second insert failed'')"
    by blast
  have "e1 = wrapError
         ''transaction failed: second insert failed, rollback failed: connection lost''
         (errorString ''second insert failed'')"
    using wrapError_eqI [OF e1(2) e1(3)] by simp
  with e1(1) have r1:
    "fst (WithTransactionContext store_failing Background (Some db_plain) insert_fails []) =
       Returned (Some (wrapError
         ''transaction failed: second insert failed, rollback failed: connection lost''
         (errorString ''second insert failed'')))"
    by simp
  have "e2 = wrapError
         ''nested transaction failed: second insert failed, savepoint rollback failed: no such savepoint''
         (errorString ''second insert failed'')"
    using wrapError_eqI [OF e2(2) e2(3)] by simp
  with e2(1) have r2:
    "fst (WithNestedTransactionContext store_failing Background (Some tx_open) insert_fails []) =
       Returned (Some (wrapError
         ''nested transaction failed: second insert failed, savepoint rollback failed: no such savepoint''
         (errorString ''second insert failed'')))"
    by simp
  from h1 h2 r1 r2 show ?thesis
    by blast
qed

text \<open>
  C5. On a handle on which a transaction is open, the nested entry point
  first issues a savepoint call and never a begin, a commit or a full rollback.
  If the store refuses the savepoint, the unit of work is not run and the
  error "failed to create savepoint: ..." wrapping the refusal is returned.
  Otherwise the unit of work runs on the same handle, after the savepoint; when
  it returns nil nothing more is issued; when it fails the helper rolls back to
  the savepoint and returns the error "nested transaction failed: ..." wrapping
  the failure; when it panics the helper rolls back to the savepoint and panics
  with the same value. \<open>WithNestedTransaction\<close> is the same function on the
  background context.
\<close>

theorem nested_uses_savepoint:
  assumes "inTransaction d"
      and "sp = savepoint_name ctx"
      and "w1 = w @ [SavePoint d sp]"
  shows "WithNestedTransactionContext gorm ctx (Some d) fn w =
           (case Error (gorm w (SavePoint d sp)) of
              Some err \<Rightarrow>
                (Returned (Some (wrapError (''failed to create savepoint: '' @ ErrorMsg err) err)),
                 w1)
            | None \<Rightarrow>
                (case fn d w1 of
                   (Returned None, w2) \<Rightarrow> (Returned None, w2)
                 | (Returned (Some err), w2) \<Rightarrow>
                     (Returned (Some (wrapError
                        (''nested transaction failed: '' @ ErrorMsg err @
                           (case Error (gorm w2 (RollbackTo d sp)) of
                              None \<Rightarrow> []
                            | Some rollbackErr \<Rightarrow>
                                '', savepoint rollback failed: '' @ ErrorMsg rollbackErr))
                        err)),
                      w2 @ [RollbackTo d sp])
                 | (Panicked r, w2) \<Rightarrow> (Panicked r, w2 @ [RollbackTo d sp])))
       \<and> (ctx = Background \<longrightarrow>
            WithNestedTransaction gorm (Some d) fn w =
              WithNestedTransactionContext gorm ctx (Some d) fn w)"
proof (intro conjI impI)
  from assms show "WithNestedTransactionContext gorm ctx (Some d) fn w =
           (case Error (gorm w (SavePoint d sp)) of
              Some err \<Rightarrow>
                (Returned (Some (wrapError (''failed to create savepoint: '' @ ErrorMsg err) err)),
                 w1)
            | None \<Rightarrow>
                (case fn d w1 of
                   (Returned None, w2) \<Rightarrow> (Returned None, w2)
                 | (Returned (Some err), w2) \<Rightarrow>
                     (Returned (Some (wrapError
                        (''nested transaction failed: '' @ ErrorMsg err @
                           (case Error (gorm w2 (RollbackTo d sp)) of
                              None \<Rightarrow> []
                            | Some rollbackErr \<Rightarrow>
                                '', savepoint rollback failed: '' @ ErrorMsg rollbackErr))
                        err)),
                      w2 @ [RollbackTo d sp])
                 | (Panicked r, w2) \<Rightarrow> (Panicked r, w2 @ [RollbackTo d sp])))"
    by (simp add: WithNestedTransactionContext_def Let_def Errorf_savepoint Errorf_nested
        Errorf_nested_rollback split: option.splits prod.splits outcome.splits)
next
  assume "ctx = Background"
  then show "WithNestedTransaction gorm (Some d) fn w =
              WithNestedTransactionContext gorm ctx (Some d) fn w"
    by (simp add: WithNestedTransaction_def)
qed

theorem nested_uses_savepoint_witness:
  "inTransaction tx_open
   \<and> ''sp_%!d(<nil>)'' = savepoint_name Background
   \<and> [SavePoint tx_open ''sp_%!d(<nil>)''] = [] @ [SavePoint tx_open ''sp_%!d(<nil>)'']
   \<and> WithNestedTransaction store_failing (Some tx_open) insert_fails [] =
       (Returned (Some (wrapError
          ''nested transaction failed: second insert failed, savepoint rollback failed: no such savepoint''
          (errorString ''second insert failed''))),
        [SavePoint tx_open ''sp_%!d(<nil>)'', Exec tx_open ''INSERT a'',
         Exec tx_open ''INSERT b'', RollbackTo tx_open ''sp_%!d(<nil>)''])
   \<and> WithNestedTransaction store_refusing (Some tx_open) insert_fails [] =
       (Returned (Some (wrapError ''failed to create savepoint: savepoints not supported''
          (errorString ''savepoints not supported''))),
        [SavePoint tx_open ''sp_%!d(<nil>)''])"
proof -
  have h1: "inTransaction tx_open"
    by (simp add: inTransaction_def tx_open_def)
  have h2: "''sp_%!d(<nil>)'' = savepoint_name Background"
    by (simp add: savepoint_name_Background)
  have h3: "[SavePoint tx_open ''sp_%!d(<nil>)''] = [] @ [SavePoint tx_open ''sp_%!d(<nil>)'']"
    by simp
  have s: "Error (store_failing [] (SavePoint tx_open ''sp_%!d(<nil>)'')) = None"
    by (simp add: store_failing_def) (simp add: tx_open_def)
  note t = nested_uses_savepoint
    [where gorm = store_failing and fn = insert_fails and ctx = Background and d = tx_open
       and w = "[]" and sp = "''sp_%!d(<nil>)''"
       and ?w1.0 = "[SavePoint tx_open ''sp_%!d(<nil>)'']", OF h1 h2 h3]
  have ctx: "WithNestedTransactionContext store_failing Background (Some tx_open) insert_fails []
      = (Returned (Some (wrapError
          ''nested transaction failed: second insert failed, savepoint rollback failed: no such savepoint''
          (errorString ''second insert failed''))),
        [SavePoint tx_open ''sp_%!d(<nil>)'', Exec tx_open ''INSERT a'',
         Exec tx_open ''INSERT b'', RollbackTo tx_open ''sp_%!d(<nil>)''])"
    using t [THEN conjunct1]
    by (simp add: s insert_fails_def) (simp add: store_failing_def)
  have r1: "WithNestedTransaction store_failing (Some tx_open) insert_fails [] =
      (Returned (Some (wrapError
          ''nested transaction failed: second insert failed, savepoint rollback failed: no such savepoint''
          (errorString ''second insert failed''))),
        [SavePoint tx_open ''sp_%!d(<nil>)'', Exec tx_open ''INSERT a'',
         Exec tx_open ''INSERT b'', RollbackTo tx_open ''sp_%!d(<nil>)''])"
    using t [THEN conjunct2, THEN mp, OF refl] ctx by simp
  have s': "Error (store_refusing [] (SavePoint tx_open ''sp_%!d(<nil>)'')) =
              Some (errorString ''savepoints not supported'')"
    by (simp add: store_refusing_def)
  note t' = nested_uses_savepoint
    [where gorm = store_refusing and fn = insert_fails and ctx = Background and d = tx_open
       and w = "[]" and sp = "''sp_%!d(<nil>)''"
       and ?w1.0 = "[SavePoint tx_open ''sp_%!d(<nil>)'']", OF h1 h2 h3]
  have ctx': "WithNestedTransactionContext store_refusing Background (Some tx_open)
                insert_fails [] =
       (Returned (Some (wrapError ''failed to create savepoint: savepoints not supported''
          (errorString ''savepoints not supported''))),
        [SavePoint tx_open ''sp_%!d(<nil>)''])"
    using t' [THEN conjunct1] by (simp add: s')
  have r2: "WithNestedTransaction store_refusing (Some tx_open) insert_fails [] =
       (Returned (Some (wrapError ''failed to create savepoint: savepoints not supported''
          (errorString ''savepoints not supported''))),
        [SavePoint tx_open ''sp_%!d(<nil>)''])"
    using t' [THEN conjunct2, THEN mp, OF refl] ctx' by simp
  from h1 h2 h3 r1 r2 show ?thesis
    by blast
qed

text \<open>
  C6. The claim is that on a handle with no transaction open the nested entry
  points behave as the plain ones. The helper decides with the test
  \<^verbatim>\<open>db.Statement != nil && db.Statement.DB != nil\<close>, which does not look at
  whether a transaction was begun: it holds of every handle the ORM builds. On
  such a handle, with no call made before, \<open>WithNestedTransaction\<close> issues a
  savepoint and neither begin nor commit, where \<open>WithTransaction\<close> begins and
  commits a transaction: the two results agree, the calls do not.
\<close>

theorem nested_on_fresh_handle_issues_savepoint:
  "inTransaction db_gorm
   \<and> WithNestedTransaction store_ok (Some db_gorm) insert_two [] =
       (Returned None,
        [SavePoint db_gorm ''sp_%!d(<nil>)'', Exec db_gorm ''INSERT a'',
         Exec db_gorm ''INSERT b''])
   \<and> WithTransaction store_ok (Some db_gorm) insert_two [] =
       (Returned None,
        [Begin Background db_gorm, Exec tx_open ''INSERT a'', Exec tx_open ''INSERT b'',
         Commit tx_open])
   \<and> WithNestedTransaction store_ok (Some db_gorm) insert_two [] \<noteq>
       WithTransaction store_ok (Some db_gorm) insert_two []"
proof -
  have i: "inTransaction db_gorm"
    by (simp add: inTransaction_def db_gorm_def)
  have e: "Error (store_ok w c) = None" for w c
    by (simp add: store_ok_def tx_open_def)
  have n: "WithNestedTransaction store_ok (Some db_gorm) insert_two [] =
       (Returned None,
        [SavePoint db_gorm ''sp_%!d(<nil>)'', Exec db_gorm ''INSERT a'',
         Exec db_gorm ''INSERT b''])"
    by (simp add: WithNestedTransaction_def WithNestedTransactionContext_def Let_def i e
        insert_two_def savepoint_name_Background)
  have p: "WithTransaction store_ok (Some db_gorm) insert_two [] =
       (Returned None,
        [Begin Background db_gorm, Exec tx_open ''INSERT a'', Exec tx_open ''INSERT b'',
         Commit tx_open])"
    by (simp add: WithTransaction_def WithTransactionContext_def Let_def e insert_two_def)
       (simp add: store_ok_def)
  from i n p show ?thesis
    by simp
qed

text \<open>
  C7. The savepoint name is computed from the context alone. Two nested calls
  layered on one open transaction through \<open>WithNestedTransaction\<close> both run on
  the background context, which carries no \<open>savepoint_id\<close>: both savepoints
  get the name \<open>sp_%!d(<nil>)\<close>, while the first is still active.
\<close>

theorem nested_savepoint_names_collide:
  "WithNestedTransaction store_ok (Some tx_open) (nested_insert store_ok) [] =
     (Returned None,
      [SavePoint tx_open ''sp_%!d(<nil>)'', SavePoint tx_open ''sp_%!d(<nil>)'',
       Exec tx_open ''INSERT a'', Exec tx_open ''INSERT b''])"
proof -
  have i: "inTransaction tx_open"
    by (simp add: inTransaction_def tx_open_def)
  have e: "Error (store_ok w c) = None" for w c
    by (simp add: store_ok_def tx_open_def)
  show ?thesis
    by (simp add: WithNestedTransaction_def WithNestedTransactionContext_def nested_insert_def
        insert_two_def Let_def i e savepoint_name_Background)
qed

text \<open>
  C8. On a nil connection handle each of the four entry points returns the
  error "database connection is nil" (the configuration error of the
  taxonomy) and issues no store call: the world is returned as it was.
\<close>

theorem nil_handle_no_store_calls:
  "WithTransactionContext gorm ctx None fn w =
     (Returned (Some (errorString ''database connection is nil'')), w)
   \<and> WithTransaction gorm None fn w =
     (Returned (Some (errorString ''database connection is nil'')), w)
   \<and> WithNestedTransactionContext gorm ctx None fn w =
     (Returned (Some (errorString ''database connection is nil'')), w)
   \<and> WithNestedTransaction gorm None fn w =
     (Returned (Some (errorString ''database connection is nil'')), w)"
  by (simp add: WithTransactionContext_def WithTransaction_def
      WithNestedTransactionContext_def WithNestedTransaction_def Errorf_nil_handle)

section \<open>Properties of the JSONB accessors\<close>

text \<open>
  C9. Every accessor accepts a nil map: \<open>Get\<close>, \<open>GetString\<close>, \<open>GetInt\<close>
  and \<open>GetBool\<close> return the zero value with false, \<open>Has\<close> returns false,
  \<open>Keys\<close> returns the nil slice, \<open>IsEmpty\<close> returns true, \<open>String\<close>
  returns "null", \<open>Clone\<close> returns nil, and \<open>Set\<close> and \<open>Delete\<close> leave
  the receiver nil. None of them panics: \<open>Set\<close> and \<open>Clone\<close>, the two that
  assign to a map entry, return normally.
\<close>

theorem JSONB_nil_receiver:
  "Get None key = (JNil, False)
   \<and> GetString None key = ([], False)
   \<and> GetInt float_to_int Int64 None key = (0, False)
   \<and> GetBool None key = (False, False)
   \<and> Has None key = False
   \<and> Keys None = None
   \<and> IsEmpty None = True
   \<and> String Marshal None = ''null''
   \<and> Clone None = Returned None
   \<and> Set None key val = Returned None
   \<and> Delete None key = None"
  by (simp add: Get_def GetString_def GetInt_def GetBool_def Has_def Keys_def IsEmpty_def
      map_len_def String_def Clone_def Set_def Delete_def)

section \<open>Properties of the configuration defaults\<close>

text \<open>
  Each step of \<open>setDefaults\<close> reads and writes one field, so the steps can be
  taken field by field.
\<close>

lemma if_update_SSLMode:
  "(if b then c\<lparr>SSLMode := v\<rparr> else c) = c\<lparr>SSLMode := (if b then v else SSLMode c)\<rparr>"
  by simp

lemma if_update_Timezone:
  "(if b then c\<lparr>Timezone := v\<rparr> else c) = c\<lparr>Timezone := (if b then v else Timezone c)\<rparr>"
  by simp

lemma if_update_MaxIdleConns:
  "(if b then c\<lparr>MaxIdleConns := v\<rparr> else c) = c\<lparr>MaxIdleConns := (if b then v else MaxIdleConns c)\<rparr>"
  by simp

lemma if_update_MaxOpenConns:
  "(if b then c\<lparr>MaxOpenConns := v\<rparr> else c) = c\<lparr>MaxOpenConns := (if b then v else MaxOpenConns c)\<rparr>"
  by simp

lemma if_update_ConnMaxLifetime:
  "(if b then c\<lparr>ConnMaxLifetime := v\<rparr> else c) = c\<lparr>ConnMaxLifetime := (if b then v else ConnMaxLifetime c)\<rparr>"
  by simp

lemma if_update_ConnMaxIdleTime:
  "(if b then c\<lparr>ConnMaxIdleTime := v\<rparr> else c) = c\<lparr>ConnMaxIdleTime := (if b then v else ConnMaxIdleTime c)\<rparr>"
  by simp

lemma if_update_LogLevel:
  "(if b then c\<lparr>LogLevel := v\<rparr> else c) = c\<lparr>LogLevel := (if b then v else LogLevel c)\<rparr>"
  by simp

lemma if_update_SlowThreshold:
  "(if b then c\<lparr>SlowThreshold := v\<rparr> else c) = c\<lparr>SlowThreshold := (if b then v else SlowThreshold c)\<rparr>"
  by simp

lemmas if_updates = if_update_SSLMode if_update_Timezone if_update_MaxIdleConns if_update_MaxOpenConns if_update_ConnMaxLifetime if_update_ConnMaxIdleTime if_update_LogLevel if_update_SlowThreshold

lemma setDefaults_fields:
  "setDefaults c =
     c\<lparr>SSLMode := (if SSLMode c = [] then ''disable'' else SSLMode c),
       Timezone := (if Timezone c = [] then ''UTC'' else Timezone c),
       MaxIdleConns := (if MaxIdleConns c \<le> 0 then 10 else MaxIdleConns c),
       MaxOpenConns := (if MaxOpenConns c \<le> 0 then 100 else MaxOpenConns c),
       ConnMaxLifetime := (if ConnMaxLifetime c \<le> 0 then 30 * Minute else ConnMaxLifetime c),
       ConnMaxIdleTime := (if ConnMaxIdleTime c \<le> 0 then 10 * Minute else ConnMaxIdleTime c),
       LogLevel := (if LogLevel c = 0 then logger_Info else LogLevel c),
       SlowThreshold := (if SlowThreshold c \<le> 0 then 200 * Millisecond else SlowThreshold c)\<rparr>"
  unfolding setDefaults_def
  apply (simp only: if_updates)
  apply (simp add: Let_def cong: if_cong split del: if_split)
  done

lemma setDefaults_defaulted:
  "SSLMode (setDefaults c) = (if SSLMode c = [] then ''disable'' else SSLMode c)"
  "Timezone (setDefaults c) = (if Timezone c = [] then ''UTC'' else Timezone c)"
  "MaxIdleConns (setDefaults c) = (if MaxIdleConns c \<le> 0 then 10 else MaxIdleConns c)"
  "MaxOpenConns (setDefaults c) = (if MaxOpenConns c \<le> 0 then 100 else MaxOpenConns c)"
  "ConnMaxLifetime (setDefaults c) = (if ConnMaxLifetime c \<le> 0 then 30 * Minute else ConnMaxLifetime c)"
  "ConnMaxIdleTime (setDefaults c) = (if ConnMaxIdleTime c \<le> 0 then 10 * Minute else ConnMaxIdleTime c)"
  "LogLevel (setDefaults c) = (if LogLevel c = 0 then logger_Info else LogLevel c)"
  "SlowThreshold (setDefaults c) = (if SlowThreshold c \<le> 0 then 200 * Millisecond else SlowThreshold c)"
  by (simp_all add: setDefaults_fields split del: if_split)

lemma setDefaults_kept:
  "Host (setDefaults c) = Host c"
  "User (setDefaults c) = User c"
  "Password (setDefaults c) = Password c"
  "Name (setDefaults c) = Name c"
  "Port (setDefaults c) = Port c"
  "TranslateErrors (setDefaults c) = TranslateErrors c"
  "IgnoreRecordNotFoundError (setDefaults c) = IgnoreRecordNotFoundError c"
  by (simp_all add: setDefaults_fields split del: if_split)

lemma setDefaults_twice: "setDefaults (setDefaults c) = setDefaults c"
proof (rule GormConfig.equality)
  show "Host (setDefaults (setDefaults c)) = Host (setDefaults c)"
    by (simp only: setDefaults_kept)
next
  show "User (setDefaults (setDefaults c)) = User (setDefaults c)"
    by (simp only: setDefaults_kept)
next
  show "Password (setDefaults (setDefaults c)) = Password (setDefaults c)"
    by (simp only: setDefaults_kept)
next
  show "Name (setDefaults (setDefaults c)) = Name (setDefaults c)"
    by (simp only: setDefaults_kept)
next
  show "Port (setDefaults (setDefaults c)) = Port (setDefaults c)"
    by (simp only: setDefaults_kept)
next
  show "SSLMode (setDefaults (setDefaults c)) = SSLMode (setDefaults c)"
    by (simp add: setDefaults_defaulted logger_Info_def Minute_def Millisecond_def)
next
  show "Timezone (setDefaults (setDefaults c)) = Timezone (setDefaults c)"
    by (simp add: setDefaults_defaulted logger_Info_def Minute_def Millisecond_def)
next
  show "MaxIdleConns (setDefaults (setDefaults c)) = MaxIdleConns (setDefaults c)"
    by (simp add: setDefaults_defaulted logger_Info_def Minute_def Millisecond_def)
next
  show "MaxOpenConns (setDefaults (setDefaults c)) = MaxOpenConns (setDefaults c)"
    by (simp add: setDefaults_defaulted logger_Info_def Minute_def Millisecond_def)
next
  show "ConnMaxLifetime (setDefaults (setDefaults c)) = ConnMaxLifetime (setDefaults c)"
    by (simp add: setDefaults_defaulted logger_Info_def Minute_def Millisecond_def)
next
  show "ConnMaxIdleTime (setDefaults (setDefaults c)) = ConnMaxIdleTime (setDefaults c)"
    by (simp add: setDefaults_defaulted logger_Info_def Minute_def Millisecond_def)
next
  show "TranslateErrors (setDefaults (setDefaults c)) = TranslateErrors (setDefaults c)"
    by (simp only: setDefaults_kept)
next
  show "LogLevel (setDefaults (setDefaults c)) = LogLevel (setDefaults c)"
    by (simp add: setDefaults_defaulted logger_Info_def Minute_def Millisecond_def)
next
  show "SlowThreshold (setDefaults (setDefaults c)) = SlowThreshold (setDefaults c)"
    by (simp add: setDefaults_defaulted logger_Info_def Minute_def Millisecond_def)
next
  show "IgnoreRecordNotFoundError (setDefaults (setDefaults c)) = IgnoreRecordNotFoundError (setDefaults c)"
    by (simp only: setDefaults_kept)
next
  show "GormConfig.more (setDefaults (setDefaults c)) = GormConfig.more (setDefaults c)"
    by simp
qed

text \<open>
  C10. \<open>setDefaults\<close> is idempotent; it leaves a string field that is not
  empty and a numeric field that is positive as they are; and it never changes
  \<open>Host\<close>, \<open>User\<close>, \<open>Password\<close>, \<open>Name\<close> and \<open>Port\<close> (nor the two
  boolean fields).
\<close>

theorem setDefaults_idempotent:
  "setDefaults (setDefaults c) = setDefaults c
   \<and> (SSLMode c \<noteq> [] \<longrightarrow> SSLMode (setDefaults c) = SSLMode c)
   \<and> (Timezone c \<noteq> [] \<longrightarrow> Timezone (setDefaults c) = Timezone c)
   \<and> (0 < MaxIdleConns c \<longrightarrow> MaxIdleConns (setDefaults c) = MaxIdleConns c)
   \<and> (0 < MaxOpenConns c \<longrightarrow> MaxOpenConns (setDefaults c) = MaxOpenConns c)
   \<and> (0 < ConnMaxLifetime c \<longrightarrow> ConnMaxLifetime (setDefaults c) = ConnMaxLifetime c)
   \<and> (0 < ConnMaxIdleTime c \<longrightarrow> ConnMaxIdleTime (setDefaults c) = ConnMaxIdleTime c)
   \<and> (0 < LogLevel c \<longrightarrow> LogLevel (setDefaults c) = LogLevel c)
   \<and> (0 < SlowThreshold c \<longrightarrow> SlowThreshold (setDefaults c) = SlowThreshold c)
   \<and> Host (setDefaults c) = Host c
   \<and> User (setDefaults c) = User c
   \<and> Password (setDefaults c) = Password c
   \<and> Name (setDefaults c) = Name c
   \<and> Port (setDefaults c) = Port c
   \<and> TranslateErrors (setDefaults c) = TranslateErrors c
   \<and> IgnoreRecordNotFoundError (setDefaults c) = IgnoreRecordNotFoundError c"
  by (simp add: setDefaults_twice setDefaults_defaulted setDefaults_kept)

theorem setDefaults_idempotent_witness:
  "SSLMode cfg_example \<noteq> [] \<and> Timezone cfg_example \<noteq> []
   \<and> 0 < MaxIdleConns cfg_example \<and> 0 < MaxOpenConns cfg_example
   \<and> 0 < ConnMaxLifetime cfg_example \<and> 0 < ConnMaxIdleTime cfg_example
   \<and> 0 < LogLevel cfg_example \<and> 0 < SlowThreshold cfg_example
   \<and> SSLMode (setDefaults cfg_example) = ''require''
   \<and> Timezone (setDefaults cfg_example) = ''Europe/Berlin''
   \<and> MaxIdleConns (setDefaults cfg_example) = 5
   \<and> MaxOpenConns (setDefaults cfg_example) = 20
   \<and> ConnMaxLifetime (setDefaults cfg_example) = 300000000000
   \<and> ConnMaxIdleTime (setDefaults cfg_example) = 120000000000
   \<and> LogLevel (setDefaults cfg_example) = 2
   \<and> SlowThreshold (setDefaults cfg_example) = 500000000
   \<and> setDefaults (setDefaults cfg_example) = setDefaults cfg_example"
proof -
  have h: "SSLMode cfg_example \<noteq> []" "Timezone cfg_example \<noteq> []"
    "0 < MaxIdleConns cfg_example" "0 < MaxOpenConns cfg_example"
    "0 < ConnMaxLifetime cfg_example" "0 < ConnMaxIdleTime cfg_example"
    "0 < LogLevel cfg_example" "0 < SlowThreshold cfg_example"
    by (simp_all add: cfg_example_def Minute_def Millisecond_def)
  have v: "SSLMode cfg_example = ''require''" "Timezone cfg_example = ''Europe/Berlin''"
    "MaxIdleConns cfg_example = 5" "MaxOpenConns cfg_example = 20"
    "ConnMaxLifetime cfg_example = 300000000000" "ConnMaxIdleTime cfg_example = 120000000000"
    "LogLevel cfg_example = 2" "SlowThreshold cfg_example = 500000000"
    by (simp_all add: cfg_example_def Minute_def Millisecond_def)
  note t = setDefaults_idempotent [of cfg_example]
  from t h have
    "SSLMode (setDefaults cfg_example) = SSLMode cfg_example"
    "Timezone (setDefaults cfg_example) = Timezone cfg_example"
    "MaxIdleConns (setDefaults cfg_example) = MaxIdleConns cfg_example"
    "MaxOpenConns (setDefaults cfg_example) = MaxOpenConns cfg_example"
    "ConnMaxLifetime (setDefaults cfg_example) = ConnMaxLifetime cfg_example"
    "ConnMaxIdleTime (setDefaults cfg_example) = ConnMaxIdleTime cfg_example"
    "LogLevel (setDefaults cfg_example) = LogLevel cfg_example"
    "SlowThreshold (setDefaults cfg_example) = SlowThreshold cfg_example"
    "setDefaults (setDefaults cfg_example) = setDefaults cfg_example"
    by blast+
  with h v show ?thesis
    by simp
qed

end
